theory Spec2Isabelle
  imports Main
begin

section \<open>The store\<close>

text \<open>
  The handlers of \<^verbatim>\<open>app.py\<close> keep no state of their own: every request reads and
  writes the tables of the hosted store through select / insert / update / delete calls
  with equality filters. A table is modelled as the list of its rows, a filtered select
  as \<^const>\<open>filter\<close> on that list, \<^verbatim>\<open>.data[0]\<close> as the first row of the result, an
  update with an \<^verbatim>\<open>eq\<close> filter as a map over the matching rows and a delete as the
  removal of the matching rows. The source declares no schema, so the model has no
  constraint of its own (no uniqueness, no foreign key action); generated keys come from
  one counter per table, and the column default of \<^verbatim>\<open>booking_time\<close> is the time of
  the request. Identifiers and counters are Python integers.
\<close>

type_synonym time = int \<comment> \<open>microseconds on the server's clock, the resolution of datetime\<close>

record user =
  user_id :: int
  student_id :: string
  year :: int
  name :: string
  email :: string
  phone :: string
  password_hash :: string
  is_admin :: bool

record route =
  route_id :: int
  route_name :: string
  start_point :: string
  end_point :: string
  duration :: int

record bus =
  bus_id :: int
  bus_number :: string
  capacity :: int
  bus_route_id :: int

record schedule =
  schedule_id :: int
  sched_bus_id :: int
  departure_date :: string
  departure_time :: string
  available_seats :: int
  sched_status :: string
  created_by_admin :: "int option"
  updated_by_admin :: "int option"

record booking =
  booking_id :: int
  booking_user_id :: int
  booking_schedule_id :: int
  seat_number :: int
  status :: string
  booking_time :: time

datatype action_type = Create_action | Update_action

record activity =
  log_admin_id :: int
  log_action_type :: action_type
  log_table_name :: string
  log_record_id :: int

record db =
  users :: "user list"
  routes :: "route list"
  buses :: "bus list"
  schedules :: "schedule list"
  bookings :: "booking list"
  admin_activity_log :: "activity list"
  next_user_id :: int
  next_schedule_id :: int
  next_booking_id :: int

text \<open>
  The Flask session: \<^verbatim>\<open>'user_id' in session\<close> is \<open>session_user_id s \<noteq> None\<close>,
  \<^verbatim>\<open>session.get('is_admin')\<close> is \<open>session_is_admin s\<close>, and \<^verbatim>\<open>session['admin_id']\<close>
  raises KeyError when the key is absent.
\<close>

record session =
  session_user_id :: "int option"
  session_admin_id :: "int option"
  session_is_admin :: bool

subsection \<open>Responses\<close>

datatype py_error = TypeError | IndexError | KeyError | ValueError

datatype endpoint =
    Login | Admin_login | Dashboard | Admin_panel | Manage_buses | Book_seat int

datatype template =
    Register_html | Create_schedule_html | Edit_schedule_html

text \<open>
  The messages passed to \<^verbatim>\<open>flash\<close>, one constructor per message of the handlers
  modelled here, named after the source's text: \<open>Seat_no_longer_available\<close> is
  \<^verbatim>\<open>'Seat no longer available'\<close>, \<open>Booking_not_found\<close> is \<^verbatim>\<open>'Booking not found'\<close>,
  \<open>Already_booked\<close> is \<^verbatim>\<open>'You already have a booking for this schedule'\<close>,
  \<open>Cannot_cancel_yet\<close> is \<^verbatim>\<open>'Cannot cancel booking less than 2 minutes after booking'\<close>,
  \<open>Use_college_mail\<close> is the message that asks for a mail id which ends with
  \<^verbatim>\<open>@student.gitam.edu\<close>, and \<open>Weak_password\<close> the one that states the password rule.
  The two messages with a number carry the capacity they print. \<open>Error e\<close> is the
  \<^verbatim>\<open>f"Error: {e}"\<close> of an \<^verbatim>\<open>except\<close> branch, for the exception \<open>e\<close> raised. A
  response keeps the messages of its request and, of the data given to a template, the
  free seats of the seat picker and the ticket.
\<close>

datatype flash =
    Schedule_not_found
  | Invalid_seat_number int
  | Seat_no_longer_available
  | Booking_confirmed
  | Booking_not_found
  | Cannot_cancel_yet
  | Booking_cancelled
  | Already_booked
  | No_seats_available
  | Unauthorized_access
  | Bus_not_found
  | Exceeds_capacity int
  | Schedule_created
  | Schedule_cancelled
  | Schedule_updated
  | All_fields_required
  | Use_college_mail
  | Invalid_phone
  | Weak_password
  | Invalid_student_id
  | Already_exists
  | Registration_successful
  | Error py_error
  | Error_creating_schedule py_error
  | Error_updating_schedule py_error

record ticket =
  ticket_booking_id :: int
  ticket_student_id :: string
  ticket_name :: string
  ticket_email :: string
  ticket_phone :: string
  ticket_seat_number :: int
  ticket_bus_number :: string
  ticket_route_name :: string
  ticket_start_point :: string
  ticket_end_point :: string
  ticket_departure_date :: string
  ticket_departure_time :: string
  ticket_booking_time :: time

datatype response =
    Redirect endpoint "flash list"
  | Render template "flash list"
  | Render_book_seat "int list"
  | Render_ticket ticket

subsection \<open>Queries\<close>

text \<open>\<^verbatim>\<open>result.data[0]\<close> of a select, when \<^verbatim>\<open>result.data\<close> is not empty.\<close>

fun first_row :: "'a list \<Rightarrow> 'a option" where
  "first_row [] = None"
| "first_row (x # xs) = Some x"

definition schedules_eq_id :: "db \<Rightarrow> int \<Rightarrow> schedule list" where
  "schedules_eq_id d sid = filter (\<lambda>s. schedule_id s = sid) (schedules d)"

text \<open>The embedded resource \<^verbatim>\<open>buses(...)\<close> of a schedule row: null when no bus has its \<^verbatim>\<open>bus_id\<close>.\<close>

definition bus_of :: "db \<Rightarrow> schedule \<Rightarrow> bus option" where
  "bus_of d s = first_row (filter (\<lambda>b. bus_id b = sched_bus_id s) (buses d))"

definition route_of :: "db \<Rightarrow> bus \<Rightarrow> route option" where
  "route_of d b = first_row (filter (\<lambda>r. route_id r = bus_route_id b) (routes d))"

definition is_confirmed :: "booking \<Rightarrow> bool" where
  "is_confirmed b = (status b = ''confirmed'')"

definition confirmed_seat :: "db \<Rightarrow> int \<Rightarrow> int \<Rightarrow> booking list" where
  "confirmed_seat d sid n =
     filter (\<lambda>b. booking_schedule_id b = sid \<and> seat_number b = n \<and> is_confirmed b) (bookings d)"

definition set_available :: "int \<Rightarrow> int \<Rightarrow> schedule list \<Rightarrow> schedule list" where
  "set_available sid v rows =
     map (\<lambda>s. if schedule_id s = sid then s\<lparr>available_seats := v\<rparr> else s) rows"

section \<open>Seat reservation\<close>

subsection \<open>confirm\_booking\<close>

text \<open>
  \<^verbatim>\<open>POST /confirm_booking\<close> with the form fields already read by \<^verbatim>\<open>int\<close>.
  A schedule row whose bus is missing has \<^verbatim>\<open>schedule['buses']\<close> null, and the
  subscript raises TypeError inside the \<^verbatim>\<open>try\<close>.
\<close>

definition confirm_booking :: "time \<Rightarrow> session \<Rightarrow> int \<Rightarrow> int \<Rightarrow> db \<Rightarrow> response \<times> db" where
  "confirm_booking now sess sid seat d =
     (case session_user_id sess of
        None \<Rightarrow> (Redirect Login [], d)
      | Some uid \<Rightarrow>
         (case first_row (schedules_eq_id d sid) of
            None \<Rightarrow> (Redirect Dashboard [Schedule_not_found], d)
          | Some sch \<Rightarrow>
             (case bus_of d sch of
                None \<Rightarrow> (Redirect Dashboard [Error TypeError], d)
              | Some b \<Rightarrow>
                 if seat < 1 \<or> seat > capacity b
                 then (Redirect (Book_seat sid) [Invalid_seat_number (capacity b)], d)
                 else if confirmed_seat d sid seat \<noteq> [] \<or> available_seats sch \<le> 0
                 then (Redirect Dashboard [Seat_no_longer_available], d)
                 else
                   (Redirect Dashboard [Booking_confirmed],
                    d\<lparr>bookings := bookings d @
                         [\<lparr>booking_id = next_booking_id d, booking_user_id = uid,
                           booking_schedule_id = sid, seat_number = seat,
                           status = ''confirmed'', booking_time = now\<rparr>],
                      next_booking_id := next_booking_id d + 1,
                      schedules := set_available sid (available_seats sch - 1) (schedules d)\<rparr>))))"

subsection \<open>book\_seat\<close>

text \<open>
  \<^verbatim>\<open>GET /book/<schedule_id>\<close>, the seat picker. It writes nothing; it is the one place
  that looks for a confirmed booking of the caller on the schedule
  (\<^verbatim>\<open>'You already have a booking for this schedule'\<close>). The page gets the seat numbers
  of \<^verbatim>\<open>range(1, capacity + 1)\<close> that no confirmed booking of the schedule holds.
\<close>

definition confirmed_of_user :: "db \<Rightarrow> int \<Rightarrow> int \<Rightarrow> booking list" where
  "confirmed_of_user d uid sid =
     filter (\<lambda>b. booking_user_id b = uid \<and> booking_schedule_id b = sid \<and> is_confirmed b)
       (bookings d)"

definition booked_seat_numbers :: "db \<Rightarrow> int \<Rightarrow> int list" where
  "booked_seat_numbers d sid =
     map seat_number (filter (\<lambda>b. booking_schedule_id b = sid \<and> is_confirmed b) (bookings d))"

definition book_seat :: "session \<Rightarrow> int \<Rightarrow> db \<Rightarrow> response" where
  "book_seat sess sid d =
     (case session_user_id sess of
        None \<Rightarrow> Redirect Login []
      | Some uid \<Rightarrow>
         if confirmed_of_user d uid sid \<noteq> [] then Redirect Dashboard [Already_booked]
         else
           (case first_row (schedules_eq_id d sid) of
              None \<Rightarrow> Redirect Dashboard [No_seats_available]
            | Some sch \<Rightarrow>
               if available_seats sch \<le> 0 then Redirect Dashboard [No_seats_available]
               else
                 (case bus_of d sch of
                    None \<Rightarrow> Redirect Dashboard [Error TypeError]
                  | Some b \<Rightarrow>
                     (case route_of d b of
                        None \<Rightarrow> Redirect Dashboard [Error TypeError]
                      | Some r \<Rightarrow>
                         Render_book_seat
                           (filter (\<lambda>i. i \<notin> set (booked_seat_numbers d sid)) [1..capacity b])))))"

section \<open>Cancellation\<close>

text \<open>
  \<^verbatim>\<open>GET /cancel_booking/<booking_id>\<close>. The select filters on \<^verbatim>\<open>booking_id\<close> and
  \<^verbatim>\<open>user_id\<close> only. The hold period is \<^verbatim>\<open>timedelta(minutes=2)\<close>. The booking is
  updated before the schedule is read, so the IndexError of \<^verbatim>\<open>.data[0]\<close> on a
  schedule that is gone leaves the booking cancelled.
\<close>

definition timedelta_minutes :: "int \<Rightarrow> time" where
  "timedelta_minutes m = m * 60 * 1000000"

definition set_cancelled :: "int \<Rightarrow> booking list \<Rightarrow> booking list" where
  "set_cancelled bid rows =
     map (\<lambda>b. if booking_id b = bid then b\<lparr>status := ''cancelled''\<rparr> else b) rows"

definition cancel_booking :: "time \<Rightarrow> session \<Rightarrow> int \<Rightarrow> db \<Rightarrow> response \<times> db" where
  "cancel_booking now sess bid d =
     (case session_user_id sess of
        None \<Rightarrow> (Redirect Login [], d)
      | Some uid \<Rightarrow>
         (case first_row (filter (\<lambda>b. booking_id b = bid \<and> booking_user_id b = uid) (bookings d)) of
            None \<Rightarrow> (Redirect Dashboard [Booking_not_found], d)
          | Some bk \<Rightarrow>
             if now - booking_time bk < timedelta_minutes 2
             then (Redirect Dashboard [Cannot_cancel_yet], d)
             else
               (let d1 = d\<lparr>bookings := set_cancelled bid (bookings d)\<rparr> in
                case first_row (schedules_eq_id d1 (booking_schedule_id bk)) of
                  None \<Rightarrow> (Redirect Dashboard [Error IndexError], d1)
                | Some sch \<Rightarrow>
                   (Redirect Dashboard [Booking_cancelled],
                    d1\<lparr>schedules :=
                         set_available (booking_schedule_id bk) (available_seats sch + 1)
                           (schedules d1)\<rparr>))))"

section \<open>Schedule lifecycle\<close>

datatype 'a http = GET | POST 'a

record slot_form =
  form_bus_number :: string
  form_departure_date :: string
  form_departure_time :: string
  form_total_seats :: int

definition buses_eq_number :: "db \<Rightarrow> string \<Rightarrow> bus list" where
  "buses_eq_number d bn = filter (\<lambda>b. bus_number b = bn) (buses d)"

text \<open>
  \<^verbatim>\<open>/create_slot\<close>, with \<^verbatim>\<open>total_seats\<close> already read by \<^verbatim>\<open>int\<close>. The only checks
  of a POST are that a bus has the number and that \<^verbatim>\<open>total_seats > bus['capacity']\<close>
  is false. A row of the activity log is kept without its description text.
\<close>

definition create_slot :: "session \<Rightarrow> slot_form http \<Rightarrow> db \<Rightarrow> response \<times> db" where
  "create_slot sess req d =
     (if \<not> session_is_admin sess then (Redirect Admin_login [Unauthorized_access], d)
      else case req of
        GET \<Rightarrow> (Render Create_schedule_html [], d)
      | POST f \<Rightarrow>
         (case first_row (buses_eq_number d (form_bus_number f)) of
            None \<Rightarrow> (Render Create_schedule_html [Bus_not_found], d)
          | Some b \<Rightarrow>
             if form_total_seats f > capacity b
             then (Render Create_schedule_html [Exceeds_capacity (capacity b)], d)
             else
               (case session_admin_id sess of
                  None \<Rightarrow> (Render Create_schedule_html [Error_creating_schedule KeyError], d)
                | Some aid \<Rightarrow>
                   (Redirect Admin_panel [Schedule_created],
                    d\<lparr>schedules := schedules d @
                         [\<lparr>schedule_id = next_schedule_id d, sched_bus_id = bus_id b,
                           departure_date = form_departure_date f,
                           departure_time = form_departure_time f,
                           available_seats = form_total_seats f,
                           sched_status = ''active'',
                           created_by_admin = Some aid, updated_by_admin = None\<rparr>],
                      next_schedule_id := next_schedule_id d + 1,
                      admin_activity_log := admin_activity_log d @
                         [\<lparr>log_admin_id = aid, log_action_type = Create_action,
                           log_table_name = ''schedules'',
                           log_record_id = next_schedule_id d\<rparr>]\<rparr>))))"

text \<open>\<^verbatim>\<open>POST /cancel_schedule/<schedule_id>\<close>: one delete on the schedules table.\<close>

definition cancel_schedule :: "session \<Rightarrow> int \<Rightarrow> db \<Rightarrow> response \<times> db" where
  "cancel_schedule sess sid d =
     (if \<not> session_is_admin sess then (Redirect Admin_login [Unauthorized_access], d)
      else (Redirect Manage_buses [Schedule_cancelled],
            d\<lparr>schedules := filter (\<lambda>s. schedule_id s \<noteq> sid) (schedules d)\<rparr>))"

text \<open>
  \<^verbatim>\<open>/edit_schedule/<schedule_id>\<close>. \<^verbatim>\<open>departure_datetime.split("T")\<close> is unpacked
  into two names, a ValueError unless the field has exactly one \<^verbatim>\<open>T\<close>. The
  \<^verbatim>\<open>except\<close> of the POST branch flashes and falls through to the code of the GET
  request, which reads the schedule for the form.
\<close>

fun split_on :: "char \<Rightarrow> string \<Rightarrow> string list" where
  "split_on sep [] = [[]]"
| "split_on sep (c # cs) =
     (if c = sep then [] # split_on sep cs
      else case split_on sep cs of
             [] \<Rightarrow> [[c]]
           | p # ps \<Rightarrow> (c # p) # ps)"

record edit_form =
  edit_bus_number :: string
  edit_departure_time :: string
  edit_total_seats :: int

definition load_schedule :: "int \<Rightarrow> flash list \<Rightarrow> db \<Rightarrow> response" where
  "load_schedule sid fl d =
     (case first_row (schedules_eq_id d sid) of
        None \<Rightarrow> Redirect Manage_buses (fl @ [Schedule_not_found])
      | Some s \<Rightarrow>
         (case bus_of d s of
            None \<Rightarrow> Redirect Manage_buses (fl @ [Error TypeError])
          | Some b \<Rightarrow>
             (case route_of d b of
                None \<Rightarrow> Redirect Manage_buses (fl @ [Error TypeError])
              | Some r \<Rightarrow> Render Edit_schedule_html fl)))"

definition edit_schedule :: "session \<Rightarrow> int \<Rightarrow> edit_form http \<Rightarrow> db \<Rightarrow> response \<times> db" where
  "edit_schedule sess sid req d =
     (if \<not> session_is_admin sess then (Redirect Admin_login [Unauthorized_access], d)
      else case req of
        GET \<Rightarrow> (load_schedule sid [] d, d)
      | POST f \<Rightarrow>
         (case first_row (buses_eq_number d (edit_bus_number f)) of
            None \<Rightarrow> (Redirect Manage_buses [Bus_not_found], d)
          | Some b \<Rightarrow>
             (case split_on CHR ''T'' (edit_departure_time f) of
                [dd, dt] \<Rightarrow>
                  (case session_admin_id sess of
                     None \<Rightarrow> (load_schedule sid [Error_updating_schedule KeyError] d, d)
                   | Some aid \<Rightarrow>
                      (Redirect Admin_panel [Schedule_updated],
                       d\<lparr>schedules :=
                            map (\<lambda>s. if schedule_id s = sid
                                      then s\<lparr>sched_bus_id := bus_id b, departure_date := dd,
                                             departure_time := dt,
                                             available_seats := edit_total_seats f,
                                             updated_by_admin := Some aid\<rparr>
                                      else s) (schedules d),
                         admin_activity_log := admin_activity_log d @
                            [\<lparr>log_admin_id = aid, log_action_type = Update_action,
                              log_table_name = ''schedules'', log_record_id = sid\<rparr>]\<rparr>))
              | _ \<Rightarrow> (load_schedule sid [Error_updating_schedule ValueError] d, d))))"

section \<open>Tickets\<close>

text \<open>
  \<^verbatim>\<open>GET /view_ticket/<booking_id>\<close>. The select filters on \<^verbatim>\<open>booking_id\<close>,
  \<^verbatim>\<open>user_id\<close> and \<^verbatim>\<open>status = 'confirmed'\<close>; the ticket is then built from the
  embedded user, schedule, bus and route, and a null among them raises TypeError.
\<close>

definition user_of :: "db \<Rightarrow> booking \<Rightarrow> user option" where
  "user_of d b = first_row (filter (\<lambda>u. user_id u = booking_user_id b) (users d))"

definition schedule_of :: "db \<Rightarrow> booking \<Rightarrow> schedule option" where
  "schedule_of d b = first_row (schedules_eq_id d (booking_schedule_id b))"

definition ticket_data :: "booking \<Rightarrow> user \<Rightarrow> schedule \<Rightarrow> bus \<Rightarrow> route \<Rightarrow> ticket" where
  "ticket_data bk u s b r =
     \<lparr>ticket_booking_id = booking_id bk, ticket_student_id = student_id u,
      ticket_name = name u, ticket_email = email u, ticket_phone = phone u,
      ticket_seat_number = seat_number bk, ticket_bus_number = bus_number b,
      ticket_route_name = route_name r, ticket_start_point = start_point r,
      ticket_end_point = end_point r, ticket_departure_date = departure_date s,
      ticket_departure_time = departure_time s, ticket_booking_time = booking_time bk\<rparr>"

definition ticket_rows :: "db \<Rightarrow> int \<Rightarrow> int \<Rightarrow> booking list" where
  "ticket_rows d bid uid =
     filter (\<lambda>b. booking_id b = bid \<and> booking_user_id b = uid \<and> is_confirmed b) (bookings d)"

definition view_ticket :: "session \<Rightarrow> int \<Rightarrow> db \<Rightarrow> response" where
  "view_ticket sess bid d =
     (case session_user_id sess of
        None \<Rightarrow> Redirect Login []
      | Some uid \<Rightarrow>
         (case first_row (ticket_rows d bid uid) of
            None \<Rightarrow> Redirect Dashboard [Booking_not_found]
          | Some bk \<Rightarrow>
             (case user_of d bk of
                None \<Rightarrow> Redirect Dashboard [Error TypeError]
              | Some u \<Rightarrow>
                 (case schedule_of d bk of
                    None \<Rightarrow> Redirect Dashboard [Error TypeError]
                  | Some s \<Rightarrow>
                     (case bus_of d s of
                        None \<Rightarrow> Redirect Dashboard [Error TypeError]
                      | Some b \<Rightarrow>
                         (case route_of d b of
                            None \<Rightarrow> Redirect Dashboard [Error TypeError]
                          | Some r \<Rightarrow> Render_ticket (ticket_data bk u s b r)))))))"

section \<open>Registration\<close>

subsection \<open>Python's string predicates\<close>

text \<open>
  A Python string is a sequence of code points; a \<^typ>\<open>char\<close> here is a code point
  below 256, so the model covers the form values written in Latin-1. On that range
  \<^verbatim>\<open>str.isupper\<close> holds of \<^verbatim>\<open>A-Z\<close> and of U+00C0 to U+00DE without the
  multiplication sign U+00D7, \<^verbatim>\<open>str.isdigit\<close> of \<^verbatim>\<open>0-9\<close> and of the superscript
  digits U+00B2, U+00B3 and U+00B9, and \<^verbatim>\<open>str.isspace\<close> of U+0009 to U+000D, U+001C to
  U+0020, U+0085 and U+00A0. The classes \<^verbatim>\<open>[A-Z]\<close> and \<^verbatim>\<open>[0-9]\<close> of a regular
  expression are the ASCII ranges.
\<close>

definition ord :: "char \<Rightarrow> nat" where
  "ord c = of_char c"

definition char_isupper :: "char \<Rightarrow> bool" where
  "char_isupper c =
     ((65 \<le> ord c \<and> ord c \<le> 90) \<or> (192 \<le> ord c \<and> ord c \<le> 222 \<and> ord c \<noteq> 215))"

definition char_isdigit :: "char \<Rightarrow> bool" where
  "char_isdigit c = ((48 \<le> ord c \<and> ord c \<le> 57) \<or> ord c = 178 \<or> ord c = 179 \<or> ord c = 185)"

definition char_isspace :: "char \<Rightarrow> bool" where
  "char_isspace c =
     ((9 \<le> ord c \<and> ord c \<le> 13) \<or> (28 \<le> ord c \<and> ord c \<le> 32) \<or> ord c = 133 \<or> ord c = 160)"

definition ascii_upper :: "char \<Rightarrow> bool" where
  "ascii_upper c = (65 \<le> ord c \<and> ord c \<le> 90)"

definition ascii_digit :: "char \<Rightarrow> bool" where
  "ascii_digit c = (48 \<le> ord c \<and> ord c \<le> 57)"

text \<open>\<^verbatim>\<open>s.isdigit()\<close>: false on the empty string.\<close>

definition isdigit :: "string \<Rightarrow> bool" where
  "isdigit s = (s \<noteq> [] \<and> list_all char_isdigit s)"

definition strip :: "string \<Rightarrow> string" where
  "strip s = rev (dropWhile char_isspace (rev (dropWhile char_isspace s)))"

fun startswith :: "string \<Rightarrow> string \<Rightarrow> bool" where
  "startswith s [] = True"
| "startswith [] (p # ps) = False"
| "startswith (c # cs) (p # ps) = (c = p \<and> startswith cs ps)"

definition endswith :: "string \<Rightarrow> string \<Rightarrow> bool" where
  "endswith s p = startswith (rev s) (rev p)"

text \<open>\<^verbatim>\<open>sub in s\<close>: \<open>sub\<close> occurs in \<open>s\<close> as a contiguous substring.\<close>

fun contains :: "string \<Rightarrow> string \<Rightarrow> bool" where
  "contains [] sub = (sub = [])"
| "contains (c # cs) sub = (startswith (c # cs) sub \<or> contains cs sub)"

text \<open>\<^verbatim>\<open>re.fullmatch(r"HU22[A-Z]{4}[0-9]{7}", s)\<close>\<close>

definition fullmatch_HU22 :: "string \<Rightarrow> bool" where
  "fullmatch_HU22 s =
     (length s = 15 \<and> take 4 s = ''HU22'' \<and> list_all ascii_upper (take 4 (drop 4 s))
      \<and> list_all ascii_digit (drop 8 s))"

subsection \<open>register\<close>

definition special_chars :: string where
  "special_chars = ''@#$%&*!?''"

text \<open>
  The condition whose negation rejects the password:
  \<^verbatim>\<open>any(char.isupper() ...) and any(char.isdigit() ...) and any(char in special_chars ...)
  and len(password) >= 8\<close>.
\<close>

definition password_ok :: "string \<Rightarrow> bool" where
  "password_ok password =
     (list_ex char_isupper password \<and> list_ex char_isdigit password
      \<and> list_ex (\<lambda>c. c \<in> set special_chars) password \<and> length password \<ge> 8)"

definition valid_student_id :: "int \<Rightarrow> string \<Rightarrow> bool" where
  "valid_student_id yr sid =
     (if yr \<in> {1, 2, 3}
      then isdigit sid \<and> length sid = 10
           \<and> ((yr = 1 \<and> startswith sid ''2025'') \<or> (yr = 2 \<and> startswith sid ''2024'')
              \<or> (yr = 3 \<and> startswith sid ''2023''))
      else yr = 4 \<and> fullmatch_HU22 sid)"

record register_form =
  reg_student_id :: string
  reg_name :: string
  reg_email :: string
  reg_phone :: string
  reg_password :: string
  reg_year :: int

text \<open>
  \<^verbatim>\<open>/register\<close>, with \<^verbatim>\<open>year\<close> already read by \<^verbatim>\<open>int\<close>. The salted hash of
  werkzeug is the parameter \<open>generate_password_hash\<close>. The select for an existing user
  is the disjunction its \<^verbatim>\<open>or_\<close> filter spells.
\<close>

definition register ::
  "(string \<Rightarrow> string) \<Rightarrow> register_form http \<Rightarrow> db \<Rightarrow> response \<times> db" where
  "register generate_password_hash req d =
     (case req of
        GET \<Rightarrow> (Render Register_html [], d)
      | POST f \<Rightarrow>
         (let sid = strip (reg_student_id f) in
          if \<not> (sid \<noteq> [] \<and> reg_name f \<noteq> [] \<and> reg_year f \<noteq> 0 \<and> reg_email f \<noteq> []
                \<and> reg_phone f \<noteq> [] \<and> reg_password f \<noteq> [])
          then (Render Register_html [All_fields_required], d)
          else if \<not> contains (reg_email f) ''@student.gitam.edu''
          then (Render Register_html [Use_college_mail], d)
          else if length (reg_phone f) \<noteq> 10 \<or> \<not> isdigit (reg_phone f)
          then (Render Register_html [Invalid_phone], d)
          else if \<not> password_ok (reg_password f)
          then (Render Register_html [Weak_password], d)
          else if \<not> valid_student_id (reg_year f) sid
          then (Render Register_html [Invalid_student_id], d)
          else if filter (\<lambda>u. student_id u = sid \<or> email u = reg_email f) (users d) \<noteq> []
          then (Render Register_html [Already_exists], d)
          else
            (Redirect Login [Registration_successful],
             d\<lparr>users := users d @
                  [\<lparr>user_id = next_user_id d, student_id = sid, year = reg_year f,
                    name = reg_name f, email = reg_email f, phone = reg_phone f,
                    password_hash = generate_password_hash (reg_password f),
                    is_admin = False\<rparr>],
               next_user_id := next_user_id d + 1\<rparr>)))"

section \<open>The service as a sequence of requests\<close>

text \<open>
  Each route is one request; a sequential run handles the requests one after the other,
  each at its own time on the server's clock, on the store the previous one left.
\<close>

datatype request =
    Register_req "register_form http"
  | Book_seat_req session int
  | Confirm_booking_req session int int
  | Cancel_booking_req session int
  | Create_slot_req session "slot_form http"
  | Cancel_schedule_req session int
  | Edit_schedule_req session int "edit_form http"
  | View_ticket_req session int

fun handle :: "(string \<Rightarrow> string) \<Rightarrow> time \<Rightarrow> request \<Rightarrow> db \<Rightarrow> response \<times> db" where
  "handle gph now (Register_req req) d = register gph req d"
| "handle gph now (Book_seat_req sess sid) d = (book_seat sess sid d, d)"
| "handle gph now (Confirm_booking_req sess sid seat) d = confirm_booking now sess sid seat d"
| "handle gph now (Cancel_booking_req sess bid) d = cancel_booking now sess bid d"
| "handle gph now (Create_slot_req sess req) d = create_slot sess req d"
| "handle gph now (Cancel_schedule_req sess sid) d = cancel_schedule sess sid d"
| "handle gph now (Edit_schedule_req sess sid req) d = edit_schedule sess sid req d"
| "handle gph now (View_ticket_req sess bid) d = (view_ticket sess bid d, d)"

fun run :: "(string \<Rightarrow> string) \<Rightarrow> (time \<times> request) list \<Rightarrow> db \<Rightarrow> db" where
  "run gph [] d = d"
| "run gph ((now, r) # rs) d = run gph rs (snd (handle gph now r d))"

subsection \<open>Properties of a store\<close>

text \<open>Every schedule has a bus, and its counter lies between 0 and the capacity of the bus.\<close>

definition seats_in_bounds :: "db \<Rightarrow> bool" where
  "seats_in_bounds d =
     list_all (\<lambda>s. case bus_of d s of
                      None \<Rightarrow> False
                    | Some b \<Rightarrow> 0 \<le> available_seats s \<and> available_seats s \<le> capacity b)
       (schedules d)"

text \<open>
  The consistency the specification intends, in its words:
  \<^verbatim>\<open>available_seats == capacity - count(confirmed bookings for this schedule)\<close>.
\<close>

definition spec_consistent :: "db \<Rightarrow> bool" where
  "spec_consistent d =
     list_all (\<lambda>s. case bus_of d s of
                      None \<Rightarrow> False
                    | Some b \<Rightarrow>
                       available_seats s =
                         capacity b -
                           int (length (filter (\<lambda>bk. booking_schedule_id bk = schedule_id s
                                                      \<and> is_confirmed bk) (bookings d))))
       (schedules d)"

subsection \<open>Example stores and requests\<close>

text \<open>
  The route and the bus of \<^verbatim>\<open>init_db\<close> (\<^verbatim>\<open>BUS001\<close>, 40 seats), one schedule of that
  bus with every seat free, one registered student and no booking.
\<close>

definition asha :: user where
  "asha = \<lparr>user_id = 7, student_id = ''2025000001'', year = 1, name = ''Asha'',
            email = ''asha@student.gitam.edu'', phone = ''9876543210'',
            password_hash = ''x'', is_admin = False\<rparr>"

definition route1 :: route where
  "route1 = \<lparr>route_id = 1, route_name = ''GITAM to Miyapur'', start_point = ''GITAM CAMPUS'',
              end_point = ''Miyapur'', duration = 45\<rparr>"

definition bus001 :: bus where
  "bus001 = \<lparr>bus_id = 1, bus_number = ''BUS001'', capacity = 40, bus_route_id = 1\<rparr>"

definition schedule1 :: schedule where
  "schedule1 = \<lparr>schedule_id = 1, sched_bus_id = 1, departure_date = ''2025-01-10'',
                 departure_time = ''08:00'', available_seats = 40, sched_status = ''active'',
                 created_by_admin = Some 1, updated_by_admin = None\<rparr>"

definition seeded :: db where
  "seeded =
     \<lparr>users = [asha], routes = [route1], buses = [bus001], schedules = [schedule1],
      bookings = [], admin_activity_log = [],
      next_user_id = 8, next_schedule_id = 2, next_booking_id = 1\<rparr>"

definition student :: session where
  "student = \<lparr>session_user_id = Some 7, session_admin_id = None, session_is_admin = False\<rparr>"

definition admin :: session where
  "admin = \<lparr>session_user_id = None, session_admin_id = Some 1, session_is_admin = True\<rparr>"

text \<open>The seeded store after the student has confirmed seat 1 at time 0.\<close>

definition booking1 :: booking where
  "booking1 = \<lparr>booking_id = 1, booking_user_id = 7, booking_schedule_id = 1, seat_number = 1,
                status = ''confirmed'', booking_time = 0\<rparr>"

definition seat1_taken :: db where
  "seat1_taken =
     seeded\<lparr>bookings := [booking1], next_booking_id := 2,
            schedules := [schedule1\<lparr>available_seats := 39\<rparr>]\<rparr>"


text \<open>That store after the student has cancelled booking 1, two minutes after booking.\<close>

definition cancelled_once :: db where
  "cancelled_once = snd (cancel_booking 120000000 student 1 seat1_taken)"

definition off_campus_form :: register_form where
  "off_campus_form =
     \<lparr>reg_student_id = ''2025000002'', reg_name = ''Ravi'',
      reg_email = ''ravi@student.gitam.edu.example.com'', reg_phone = ''9876543211'',
      reg_password = ''Abc123@5'', reg_year = 1\<rparr>"

definition weak_form :: register_form where
  "weak_form =
     \<lparr>reg_student_id = ''2025000002'', reg_name = ''Ravi'',
      reg_email = ''ravi@student.gitam.edu'', reg_phone = ''9876543211'',
      reg_password = ''Abc12345'', reg_year = 1\<rparr>"

definition minus_five_form :: slot_form where
  "minus_five_form =
     \<lparr>form_bus_number = ''BUS001'', form_departure_date = ''2025-01-11'',
      form_departure_time = ''08:00'', form_total_seats = - 5\<rparr>"

definition forty_one_form :: edit_form where
  "forty_one_form =
     \<lparr>edit_bus_number = ''BUS001'', edit_departure_time = ''2025-01-10T08:00'',
      edit_total_seats = 41\<rparr>"

section \<open>Auxiliary facts\<close>

lemmas store_defs = schedules_eq_id_def bus_of_def route_of_def user_of_def schedule_of_def
  ticket_rows_def confirmed_seat_def confirmed_of_user_def booked_seat_numbers_def
  buses_eq_number_def is_confirmed_def set_available_def set_cancelled_def
  timedelta_minutes_def

lemmas example_defs = seeded_def asha_def route1_def bus001_def schedule1_def student_def
  admin_def booking1_def seat1_taken_def

lemmas handler_defs = confirm_booking_def cancel_booking_def cancel_schedule_def
  view_ticket_def create_slot_def edit_schedule_def book_seat_def

lemmas string_defs = strip_def isdigit_def endswith_def password_ok_def special_chars_def
  valid_student_id_def fullmatch_HU22_def char_isupper_def char_isdigit_def char_isspace_def
  ascii_upper_def ascii_digit_def ord_def

lemma first_row_filter_None:
  "first_row (filter P xs) = None \<longleftrightarrow> \<not> (\<exists>x \<in> set xs. P x)"
  by (induction xs) auto






lemma seat1_taken_reached:
  "snd (confirm_booking 0 student 1 1 seeded) = seat1_taken"
  by (simp add: confirm_booking_def store_defs example_defs)

section \<open>Confirming a booking\<close>

text \<open>
  Claim C1. A confirm-booking request of a logged-in student for an existing schedule
  \<open>sch\<close> (whose bus is \<open>b\<close>) and seat \<open>n\<close> succeeds if and only if
  \<open>1 \<le> n \<le> capacity b\<close>, no confirmed booking holds seat \<open>n\<close> of the schedule, and
  the counter of the schedule is positive. On success one confirmed booking row of the
  caller for the schedule and the seat is appended and the counter is set to its prior
  value minus one; otherwise the request is rejected with one of the two validation
  messages and the store is as before.
\<close>

theorem confirm_booking_succeeds_iff:
  assumes "session_user_id sess = Some uid"
    and "first_row (schedules_eq_id d sid) = Some sch"
    and "bus_of d sch = Some b"
  shows "(fst (confirm_booking now sess sid n d) = Redirect Dashboard [Booking_confirmed]
          \<longleftrightarrow> 1 \<le> n \<and> n \<le> capacity b
              \<and> \<not> (\<exists>bk \<in> set (bookings d). booking_schedule_id bk = sid \<and> seat_number bk = n
                                           \<and> status bk = ''confirmed'')
              \<and> 0 < available_seats sch)
       \<and> (fst (confirm_booking now sess sid n d) = Redirect Dashboard [Booking_confirmed]
          \<longrightarrow> snd (confirm_booking now sess sid n d) =
              d\<lparr>bookings := bookings d @
                   [\<lparr>booking_id = next_booking_id d, booking_user_id = uid,
                     booking_schedule_id = sid, seat_number = n,
                     status = ''confirmed'', booking_time = now\<rparr>],
                next_booking_id := next_booking_id d + 1,
                schedules := map (\<lambda>s. if schedule_id s = sid
                                         then s\<lparr>available_seats := available_seats sch - 1\<rparr>
                                         else s) (schedules d)\<rparr>)
       \<and> (fst (confirm_booking now sess sid n d) \<noteq> Redirect Dashboard [Booking_confirmed]
          \<longrightarrow> snd (confirm_booking now sess sid n d) = d
              \<and> fst (confirm_booking now sess sid n d) \<in>
                  {Redirect (Book_seat sid) [Invalid_seat_number (capacity b)],
                   Redirect Dashboard [Seat_no_longer_available]})"
  using assms
  by (auto simp add: confirm_booking_def confirmed_seat_def is_confirmed_def set_available_def
        filter_empty_conv)

text \<open>
  On the seeded store seat 1 is confirmed and the counter goes from 40 to 39; seat 41,
  one beyond the capacity, is rejected and nothing changes.
\<close>

theorem confirm_booking_succeeds_iff_witness:
  "session_user_id student = Some 7
   \<and> first_row (schedules_eq_id seeded 1) = Some schedule1
   \<and> bus_of seeded schedule1 = Some bus001
   \<and> fst (confirm_booking 0 student 1 1 seeded) = Redirect Dashboard [Booking_confirmed]
   \<and> map available_seats (schedules (snd (confirm_booking 0 student 1 1 seeded))) = [39]
   \<and> fst (confirm_booking 0 student 1 41 seeded) \<noteq> Redirect Dashboard [Booking_confirmed]
   \<and> snd (confirm_booking 0 student 1 41 seeded) = seeded"
proof -
  have u: "session_user_id student = Some 7"
    by (simp add: student_def)
  have s: "first_row (schedules_eq_id seeded 1) = Some schedule1"
    by (simp add: schedules_eq_id_def seeded_def schedule1_def)
  have b: "bus_of seeded schedule1 = Some bus001"
    by (simp add: bus_of_def seeded_def schedule1_def bus001_def)
  have c: "capacity bus001 = 40" "available_seats schedule1 = 40" "schedule_id schedule1 = 1"
    "bookings seeded = []" "schedules seeded = [schedule1]"
    by (simp_all add: seeded_def schedule1_def bus001_def)
  from confirm_booking_succeeds_iff [OF u s b, of 0 1]
    confirm_booking_succeeds_iff [OF u s b, of 0 41] u s b c
  show ?thesis by simp
qed

section \<open>The counter of a schedule\<close>

text \<open>
  Claim C2 says that in every sequential run from a consistent store the counter of every
  schedule stays between 0 and the capacity of its bus. The seeded store is consistent
  and within bounds, and three runs leave the bounds: an admin edits schedule 1 to 41
  seats on the bus of 40 (\<^verbatim>\<open>edit_schedule\<close> has no check of the number, where
  \<^verbatim>\<open>create_slot\<close> compares it with the capacity); an admin creates a schedule of -5
  seats (\<^verbatim>\<open>create_slot\<close> has no lower bound); the student confirms seat 1 and cancels
  the booking twice (\<^verbatim>\<open>cancel_booking\<close> does not read the status), which brings the
  counter to 41.
\<close>

theorem seats_in_bounds_not_invariant:
  "spec_consistent seeded \<and> seats_in_bounds seeded
   \<and> \<not> seats_in_bounds
        (run gph [(0, Edit_schedule_req admin 1 (POST forty_one_form))] seeded)
   \<and> \<not> seats_in_bounds
        (run gph [(0, Create_slot_req admin (POST minus_five_form))] seeded)
   \<and> \<not> seats_in_bounds
        (run gph [(0, Confirm_booking_req student 1 1),
                  (120000000, Cancel_booking_req student 1),
                  (120000001, Cancel_booking_req student 1)] seeded)"
  by (simp add: seats_in_bounds_def spec_consistent_def handler_defs store_defs example_defs
        forty_one_form_def minus_five_form_def)

theorem seats_in_bounds_not_invariant_witness:
  "seats_in_bounds seeded
   \<and> \<not> seats_in_bounds
        (run id [(0, Confirm_booking_req student 1 1),
                 (120000000, Cancel_booking_req student 1),
                 (120000001, Cancel_booking_req student 1)] seeded)"
  using seats_in_bounds_not_invariant [of id] by simp

section \<open>Cancelling a booking\<close>

text \<open>
  Claim C3 says that a cancellation succeeds only for a booking that is still confirmed.
  The select of \<^verbatim>\<open>cancel_booking\<close> filters on the booking and the caller, not on the
  status. Booking 1 of the student, made at time 0, cannot be cancelled one microsecond
  before the two minutes are over and is cancelled at two minutes, which brings the
  counter back to 40. One microsecond later the same request, now for a cancelled
  booking, succeeds again and the counter of the bus of 40 seats is 41.
\<close>

theorem cancel_booking_of_cancelled_booking:
  "fst (cancel_booking 119999999 student 1 seat1_taken) = Redirect Dashboard [Cannot_cancel_yet]
   \<and> fst (cancel_booking 120000000 student 1 seat1_taken) = Redirect Dashboard [Booking_cancelled]
   \<and> map status (bookings cancelled_once) = [''cancelled'']
   \<and> map available_seats (schedules cancelled_once) = [40]
   \<and> fst (cancel_booking 120000001 student 1 cancelled_once)
       = Redirect Dashboard [Booking_cancelled]
   \<and> map available_seats (schedules (snd (cancel_booking 120000001 student 1 cancelled_once)))
       = [41]"
  by (simp add: cancelled_once_def cancel_booking_def store_defs example_defs)

theorem cancel_booking_of_cancelled_booking_witness:
  "map status (bookings cancelled_once) = [''cancelled'']
   \<and> fst (cancel_booking 120000001 student 1 cancelled_once)
       = Redirect Dashboard [Booking_cancelled]"
  using cancel_booking_of_cancelled_booking by simp

section \<open>Bookings of one user on one schedule\<close>

text \<open>
  Claim C4 says that no user ever holds two confirmed bookings on one schedule. Only the
  seat picker \<^verbatim>\<open>book_seat\<close> looks for a confirmed booking of the caller; once the
  student has seat 1 it answers that the student already has a booking. The POST handler
  \<^verbatim>\<open>confirm_booking\<close> has no such check: a second request of the same student for
  seat 2 of the same schedule is confirmed, and both rows are confirmed.
\<close>

theorem two_confirmed_bookings_of_one_user:
  "book_seat student 1 (run gph [(0, Confirm_booking_req student 1 1)] seeded)
     = Redirect Dashboard [Already_booked]
   \<and> fst (handle gph 1 (Confirm_booking_req student 1 2)
            (run gph [(0, Confirm_booking_req student 1 1)] seeded))
     = Redirect Dashboard [Booking_confirmed]
   \<and> confirmed_of_user
       (run gph [(0, Confirm_booking_req student 1 1), (1, Confirm_booking_req student 1 2)]
          seeded) 7 1
     = [booking1,
        \<lparr>booking_id = 2, booking_user_id = 7, booking_schedule_id = 1, seat_number = 2,
         status = ''confirmed'', booking_time = 1\<rparr>]"
  by (simp add: confirm_booking_def book_seat_def store_defs example_defs)

theorem two_confirmed_bookings_of_one_user_witness:
  "length (confirmed_of_user
       (run id [(0, Confirm_booking_req student 1 1), (1, Confirm_booking_req student 1 2)]
          seeded) 7 1) = 2"
  using two_confirmed_bookings_of_one_user [of id] by simp

section \<open>Re-confirming a taken seat\<close>

text \<open>
  Claim C5. Whenever a confirmed booking holds seat \<open>n\<close> of schedule \<open>sid\<close>, a
  confirm-booking request for that schedule and seat is not confirmed and leaves the
  store, so the booking rows and every counter, as it was. This holds for every session.
\<close>

theorem confirm_booking_taken_seat_rejected:
  assumes "bk \<in> set (bookings d)"
    and "booking_schedule_id bk = sid" and "seat_number bk = n" and "status bk = ''confirmed''"
  shows "snd (confirm_booking now sess sid n d) = d
       \<and> fst (confirm_booking now sess sid n d) \<noteq> Redirect Dashboard [Booking_confirmed]"
  using assms
  by (auto simp add: confirm_booking_def confirmed_seat_def is_confirmed_def filter_empty_conv
        split: option.splits)

theorem confirm_booking_taken_seat_rejected_witness:
  "booking1 \<in> set (bookings seat1_taken)
   \<and> booking_schedule_id booking1 = 1 \<and> seat_number booking1 = 1
   \<and> status booking1 = ''confirmed''
   \<and> snd (confirm_booking 5 student 1 1 seat1_taken) = seat1_taken
   \<and> fst (confirm_booking 5 student 1 1 seat1_taken) \<noteq> Redirect Dashboard [Booking_confirmed]"
proof -
  have h: "booking1 \<in> set (bookings seat1_taken)" "booking_schedule_id booking1 = 1"
    "seat_number booking1 = 1" "status booking1 = ''confirmed''"
    by (simp_all add: seat1_taken_def seeded_def booking1_def)
  from confirm_booking_taken_seat_rejected [OF h, of 5 student] h show ?thesis by simp
qed

section \<open>Registration checks\<close>

text \<open>
  Claim C6 says that an email that does not end with \<^verbatim>\<open>@student.gitam.edu\<close> is
  rejected. The handler tests \<^verbatim>\<open>'@student.gitam.edu' not in email\<close>, a substring test,
  while its own message asks for a mail id which ends with the domain. The address
  \<^verbatim>\<open>ravi@student.gitam.edu.example.com\<close> does not end with the domain and contains it;
  with the other fields valid the registration succeeds and the user row is inserted.
\<close>

theorem register_accepts_domain_inside_email:
  "\<not> endswith (reg_email off_campus_form) ''@student.gitam.edu''
   \<and> fst (register gph (POST off_campus_form) seeded) = Redirect Login [Registration_successful]
   \<and> users (snd (register gph (POST off_campus_form) seeded)) =
       users seeded @
         [\<lparr>user_id = 8, student_id = ''2025000002'', year = 1, name = ''Ravi'',
           email = ''ravi@student.gitam.edu.example.com'', phone = ''9876543211'',
           password_hash = gph ''Abc123@5'', is_admin = False\<rparr>]"
  by (simp add: register_def off_campus_form_def example_defs string_defs)

theorem register_accepts_domain_inside_email_witness:
  "fst (register id (POST off_campus_form) seeded) = Redirect Login [Registration_successful]
   \<and> length (users (snd (register id (POST off_campus_form) seeded))) = 2"
  using register_accepts_domain_inside_email [of id] by (simp add: seeded_def)

text \<open>
  Claim C7. The password condition of \<^verbatim>\<open>register\<close> holds if and only if the password
  has at least 8 characters, an uppercase letter, a digit and one of \<^verbatim>\<open>@#$%&*!?\<close>; a
  form that passes the checks before it is answered with the password message exactly
  when the condition fails; \<^verbatim>\<open>Abc12345\<close> fails it and \<^verbatim>\<open>Abc123@5\<close> passes.
\<close>

theorem password_policy:
  "(password_ok p \<longleftrightarrow>
      8 \<le> length p \<and> (\<exists>c \<in> set p. char_isupper c) \<and> (\<exists>c \<in> set p. char_isdigit c)
      \<and> (\<exists>c \<in> set p. c \<in> set ''@#$%&*!?''))
   \<and> (strip (reg_student_id f) \<noteq> [] \<and> reg_name f \<noteq> [] \<and> reg_year f \<noteq> 0
        \<and> reg_email f \<noteq> [] \<and> reg_phone f \<noteq> [] \<and> reg_password f \<noteq> []
        \<and> contains (reg_email f) ''@student.gitam.edu''
        \<and> length (reg_phone f) = 10 \<and> isdigit (reg_phone f)
      \<longrightarrow> (fst (register gph (POST f) d) = Render Register_html [Weak_password]
           \<longleftrightarrow> \<not> password_ok (reg_password f)))
   \<and> \<not> password_ok ''Abc12345'' \<and> password_ok ''Abc123@5''"
proof (intro conjI)
  show "password_ok p \<longleftrightarrow>
      8 \<le> length p \<and> (\<exists>c \<in> set p. char_isupper c) \<and> (\<exists>c \<in> set p. char_isdigit c)
      \<and> (\<exists>c \<in> set p. c \<in> set ''@#$%&*!?'')"
    unfolding password_ok_def special_chars_def list_ex_iff by blast
  show "strip (reg_student_id f) \<noteq> [] \<and> reg_name f \<noteq> [] \<and> reg_year f \<noteq> 0
        \<and> reg_email f \<noteq> [] \<and> reg_phone f \<noteq> [] \<and> reg_password f \<noteq> []
        \<and> contains (reg_email f) ''@student.gitam.edu''
        \<and> length (reg_phone f) = 10 \<and> isdigit (reg_phone f)
      \<longrightarrow> (fst (register gph (POST f) d) = Render Register_html [Weak_password]
           \<longleftrightarrow> \<not> password_ok (reg_password f))"
    by (simp add: register_def Let_def)
  show "\<not> password_ok ''Abc12345''"
    by (simp add: password_ok_def special_chars_def char_isupper_def char_isdigit_def ord_def)
  show "password_ok ''Abc123@5''"
    by (simp add: password_ok_def special_chars_def char_isupper_def char_isdigit_def ord_def)
qed

theorem password_policy_witness:
  "\<not> password_ok (reg_password weak_form)
   \<and> fst (register id (POST weak_form) seeded) = Render Register_html [Weak_password]
   \<and> password_ok ''Abc123@5''"
proof -
  have f: "strip (reg_student_id weak_form) \<noteq> []" "reg_name weak_form \<noteq> []"
    "reg_year weak_form \<noteq> 0" "reg_email weak_form \<noteq> []" "reg_phone weak_form \<noteq> []"
    "reg_password weak_form \<noteq> []" "contains (reg_email weak_form) ''@student.gitam.edu''"
    "length (reg_phone weak_form) = 10" "isdigit (reg_phone weak_form)"
    by (simp_all add: weak_form_def strip_def isdigit_def char_isspace_def char_isdigit_def
          ord_def)
  have p: "reg_password weak_form = ''Abc12345''"
    by (simp add: weak_form_def)
  from password_policy [of "''Abc12345''" weak_form id seeded] f p show ?thesis by simp
qed

section \<open>Cancelling a schedule\<close>



section \<open>Viewing a ticket\<close>




section \<open>Creating a schedule\<close>

text \<open>
  Claim C10. A create-schedule POST of an admin is answered with one of the two
  validation messages if and only if no bus has the number or the number of seats
  exceeds the capacity of the bus found. There is no lower bound: on a bus of
  non-negative capacity every number of seats that is zero or negative is accepted, and
  the schedule row inserted has that number as its counter.
\<close>

theorem create_slot_validation:
  assumes "session_is_admin sess" and "session_admin_id sess = Some aid"
  shows "((fst (create_slot sess (POST f) d) = Render Create_schedule_html [Bus_not_found]
           \<or> (\<exists>c. fst (create_slot sess (POST f) d)
                    = Render Create_schedule_html [Exceeds_capacity c]))
          \<longleftrightarrow> (\<not> (\<exists>b \<in> set (buses d). bus_number b = form_bus_number f)
               \<or> (\<exists>b. first_row (buses_eq_number d (form_bus_number f)) = Some b
                       \<and> capacity b < form_total_seats f)))
       \<and> (\<forall>b. first_row (buses_eq_number d (form_bus_number f)) = Some b
                \<and> 0 \<le> capacity b \<and> form_total_seats f \<le> 0
            \<longrightarrow> fst (create_slot sess (POST f) d) = Redirect Admin_panel [Schedule_created]
                \<and> schedules (snd (create_slot sess (POST f) d)) = schedules d @
                    [\<lparr>schedule_id = next_schedule_id d, sched_bus_id = bus_id b,
                      departure_date = form_departure_date f,
                      departure_time = form_departure_time f,
                      available_seats = form_total_seats f,
                      sched_status = ''active'',
                      created_by_admin = Some aid, updated_by_admin = None\<rparr>])"
  using assms first_row_filter_None [of "\<lambda>b. bus_number b = form_bus_number f" "buses d"]
  by (auto simp add: create_slot_def buses_eq_number_def split: option.splits)

theorem create_slot_validation_witness:
  "session_is_admin admin \<and> session_admin_id admin = Some 1
   \<and> first_row (buses_eq_number seeded (form_bus_number minus_five_form)) = Some bus001
   \<and> fst (create_slot admin (POST minus_five_form) seeded)
       = Redirect Admin_panel [Schedule_created]
   \<and> map available_seats (schedules (snd (create_slot admin (POST minus_five_form) seeded)))
       = [40, - 5]"
proof -
  have a: "session_is_admin admin" "session_admin_id admin = Some 1"
    by (simp_all add: admin_def)
  have b: "first_row (buses_eq_number seeded (form_bus_number minus_five_form)) = Some bus001"
    by (simp add: buses_eq_number_def minus_five_form_def seeded_def bus001_def)
  have c: "0 \<le> capacity bus001" "form_total_seats minus_five_form = - 5"
    "schedules seeded = [schedule1]" "available_seats schedule1 = 40"
    by (simp_all add: bus001_def minus_five_form_def seeded_def schedule1_def)
  from create_slot_validation [OF a, of minus_five_form seeded] a b c
  show ?thesis by simp
qed

end
